theory Spec2Isabelle
  imports Main "HOL-Library.AList"
begin

section \<open>Python values, exceptions and string formatting\<close>

text \<open>
  Request bodies are parsed JSON and ORM attributes are dynamically typed, so the
  attributes that \<open>setattr\<close> can overwrite hold Python values. \<open>VNone\<close> is
  Python's \<open>None\<close> and SQL's \<open>NULL\<close>; \<open>VTime\<close> is a datetime
  (the result of \<open>dates.now()\<close>), counted as a number.
\<close>

datatype val = VNone | VBool bool | VInt int | VStr string | VTime nat

text \<open>
  Every \<open>raise\<close> of the views is a constructor: \<open>RequestError\<close> and
  \<open>NotFoundError\<close> are the application's own exceptions (with their message);
  \<open>KeyError\<close> is what \<open>set.remove\<close> raises for a missing element,
  \<open>NameError\<close> what evaluating an unbound name raises,
  \<open>AttributeError\<close> what \<open>getattr\<close> raises for a missing attribute, and
  \<open>DatabaseError\<close> what \<open>db.session.commit()\<close> raises when the database
  refuses a row.
\<close>

datatype error =
    RequestError string
  | NotFoundError string
  | KeyError val
  | NameError string
  | AttributeError string
  | DatabaseError

fun fmt_nat :: "nat \<Rightarrow> string" where
  "fmt_nat n =
     (if n < 10 then [''0123456789'' ! n]
      else fmt_nat (n div 10) @ [''0123456789'' ! (n mod 10)])"

declare fmt_nat.simps [simp del]

definition fmt_int :: "int \<Rightarrow> string" where
  "fmt_int i = (if i < 0 then CHR ''-'' # fmt_nat (nat (- i)) else fmt_nat (nat i))"

text \<open>\<open>'{}'.format(v)\<close> for a value.\<close>

fun fmt_val :: "val \<Rightarrow> string" where
  "fmt_val VNone = ''None''"
| "fmt_val (VBool b) = (if b then ''True'' else ''False'')"
| "fmt_val (VInt i) = fmt_int i"
| "fmt_val (VStr s) = s"
| "fmt_val (VTime t) = fmt_nat t"

text \<open>\<open>'{}'.format(ids)\<close> for a list of integers: \<open>[1, 2]\<close>.\<close>

fun fmt_items :: "int list \<Rightarrow> string" where
  "fmt_items [] = []"
| "fmt_items [i] = fmt_int i"
| "fmt_items (i # j # js) = fmt_int i @ '', '' @ fmt_items (j # js)"

text \<open>The double-quote character of a message.\<close>

definition dq :: string where
  "dq = [CHR 0x22]"

definition fmt_int_list :: "int list \<Rightarrow> string" where
  "fmt_int_list ids = ''['' @ fmt_items ids @ '']''"

section \<open>The object model\<close>

text \<open>
  The models \<open>Tag\<close>, \<open>Thing\<close>, \<open>Event\<close> and \<open>Recipe\<close> are imported
  by the views from \<open>newslynx.models\<close>; their declarations are not among the
  sources, so the records below hold the attributes the views read and write.
  The views name a tag's organization \<open>organization_id\<close> in events_api.py and
  \<open>org_id\<close> in content_api.py; it is the one field \<open>tag_org_id\<close> here.
  A tag's category and level are nullable.
\<close>

record tag =
  tag_id :: int
  tag_org_id :: int
  tag_type :: string
  tag_category :: "string option"
  tag_level :: "string option"

record thing =
  thing_id :: int
  thing_org_id :: int

text \<open>
  An event as the ORM session holds it: its columns, and the two relationship
  collections \<open>e.tags\<close> and \<open>e.things\<close>. The collections stand for the rows
  of the association tables \<open>events_tags\<close> and \<open>things_events\<close> that
  carry this event's id. Columns that the views never name are kept, by name, in
  \<open>ev_other\<close>.
\<close>

record event =
  ev_id :: val
  ev_organization_id :: val
  ev_recipe_id :: val
  ev_status :: val
  ev_created :: val
  ev_updated :: val
  ev_other :: "(string \<times> val) list"
  ev_tags :: "tag list"
  ev_things :: "thing list"

text \<open>
  A recipe with the names of its task and of its sous chef
  (\<open>Recipe.task\<close>, \<open>Recipe.sous_chef\<close>), when it has one.
\<close>

record recipe =
  recipe_id :: int
  recipe_task :: "string option"
  recipe_sous_chef :: "string option"

text \<open>
  \<open>ContentItem\<close> (models/content_item.py): the columns, the joined collection
  \<open>tags\<close>, and the ids of the events related through
  \<open>content_items_events\<close>.
\<close>

record content_item =
  ci_id :: int
  ci_org_id :: int
  ci_recipe_id :: "int option"
  ci_type :: "string option"
  ci_provenance :: "string option"
  ci_url :: "string option"
  ci_domain :: "string option"
  ci_created :: "nat option"
  ci_updated :: "nat option"
  ci_title :: "string option"
  ci_description :: "string option"
  ci_body :: "string option"
  ci_tags :: "tag list"
  ci_events :: "val list"

record db =
  db_events :: "event list"
  db_tags :: "tag list"
  db_things :: "thing list"
  db_recipes :: "recipe list"
  db_content :: "content_item list"

text \<open>
  Modelled from the spec: the properties \<open>Event.tag_ids\<close> and
  \<open>Event.thing_ids\<close> belong to the missing Event model; an event is "related to
  zero-or-more tags" and "zero-or-more things", and the ids are read off the
  collections as \<open>ContentItem.tag_ids\<close> does (content_item.py, line 143).
\<close>

definition ev_tag_ids :: "event \<Rightarrow> int list" where
  "ev_tag_ids e = map tag_id (ev_tags e)"

definition ev_thing_ids :: "event \<Rightarrow> int list" where
  "ev_thing_ids e = map thing_id (ev_things e)"

section \<open>Loading and committing an event\<close>

text \<open>
  \<open>Event.query.filter_by(id=event_id, organization_id=org.id).first()\<close>:
  the first matching row, or \<open>None\<close>.
\<close>

definition is_event :: "int \<Rightarrow> int \<Rightarrow> event \<Rightarrow> bool" where
  "is_event org event_id e \<longleftrightarrow> ev_id e = VInt event_id \<and> ev_organization_id e = VInt org"

definition load_event :: "db \<Rightarrow> int \<Rightarrow> int \<Rightarrow> event option" where
  "load_event d org event_id = find (is_event org event_id) (db_events d)"

fun replace_first :: "('a \<Rightarrow> bool) \<Rightarrow> 'a \<Rightarrow> 'a list \<Rightarrow> 'a list" where
  "replace_first P y [] = []"
| "replace_first P y (x # xs) = (if P x then y # xs else x # replace_first P y xs)"

text \<open>
  \<open>db.session.add(e); db.session.commit()\<close>: the row that was loaded is
  written back with the object's state.
\<close>

definition commit_event :: "int \<Rightarrow> int \<Rightarrow> event \<Rightarrow> db \<Rightarrow> db" where
  "commit_event org event_id e d =
     d\<lparr>db_events := replace_first (is_event org event_id) e (db_events d)\<rparr>"

text \<open>
  The commit of \<open>event_update\<close> (line 388) sends to the database the values that
  the request body put into the columns. Whether the database takes them (the primary
  key, the enumerated status, the column types) is decided by the schema and the
  engine, which are outside the sources: \<open>accepts d e e'\<close> says whether the
  database \<open>d\<close> accepts the loaded row \<open>e\<close> in its new state \<open>e'\<close>.
  A refused commit raises and stores nothing. The other views write only values of
  their own (a fixed status, the current time, an association between existing rows),
  so their commit goes through \<open>commit_event\<close> directly.
\<close>

definition commit_update ::
  "(db \<Rightarrow> event \<Rightarrow> event \<Rightarrow> bool) \<Rightarrow> int \<Rightarrow> int \<Rightarrow> event \<Rightarrow> event \<Rightarrow> db \<Rightarrow>
   error + (event \<times> db)" where
  "commit_update accepts org event_id e e' d =
     (if accepts d e e' then Inr (e', commit_event org event_id e' d)
      else Inl DatabaseError)"

definition not_exist :: "int \<Rightarrow> error" where
  "not_exist event_id =
     RequestError (''An Event with ID '' @ fmt_int event_id @ '' does not exist.'')"

section \<open>event_update (events_api.py, lines 303-391)\<close>

text \<open>
  The request: \<open>req_data\<close> is the parsed body (a dict, as an association list);
  \<open>req_tag_ids\<close> and \<open>req_thing_ids\<close> are what
  \<open>listify_data_arg('tag_ids')\<close> and \<open>listify_data_arg('thing_ids')\<close>
  return (the helper is not among the sources).
\<close>

record request =
  req_data :: "(string \<times> val) list"
  req_tag_ids :: "int list"
  req_thing_ids :: "int list"

text \<open>\<open>setattr(e, k, v)\<close> for a column name \<open>k\<close>.\<close>

definition setattr :: "string \<Rightarrow> val \<Rightarrow> event \<Rightarrow> event" where
  "setattr k v e =
     (if k = ''id'' then e\<lparr>ev_id := v\<rparr>
      else if k = ''organization_id'' then e\<lparr>ev_organization_id := v\<rparr>
      else if k = ''recipe_id'' then e\<lparr>ev_recipe_id := v\<rparr>
      else if k = ''status'' then e\<lparr>ev_status := v\<rparr>
      else if k = ''created'' then e\<lparr>ev_created := v\<rparr>
      else if k = ''updated'' then e\<lparr>ev_updated := v\<rparr>
      else e\<lparr>ev_other := AList.update k v (ev_other e)\<rparr>)"

text \<open>
  Lines 374-384, the loop over \<open>zip(things, tags)\<close>: the thing is appended
  unless already related, then the tag's type is checked, then the tag is appended
  unless already related.
\<close>

fun associate :: "(thing \<times> tag) list \<Rightarrow> event \<Rightarrow> error + event" where
  "associate [] e = Inr e"
| "associate ((thing, tag) # rest) e =
     (let e1 = (if thing_id thing \<notin> set (ev_thing_ids e)
                then e\<lparr>ev_things := ev_things e @ [thing]\<rparr> else e)
      in if tag_type tag \<noteq> ''impact''
         then Inl (RequestError ''Events can only be assigned Impact Tags.'')
         else associate rest
                (if tag_id tag \<notin> set (ev_tag_ids e1)
                 then e1\<lparr>ev_tags := ev_tags e1 @ [tag]\<rparr> else e1))"

text \<open>
  Lines 326-347: whether the request approves the event, with the tags and things
  fetched for it. \<open>Tag.query.filter(Tag.id.in_(tag_ids)).all()\<close> returns the
  existing tags in table order.
\<close>

definition check_approval ::
  "db \<Rightarrow> request \<Rightarrow> event \<Rightarrow> error + (bool \<times> thing list \<times> tag list)" where
  "check_approval d rq e =
     (let tag_ids = req_tag_ids rq;
          thing_ids = req_thing_ids rq;
          current_status = ev_status e;
          req_status = map_of (req_data rq) ''status''
      in if tag_ids \<noteq> [] \<and> thing_ids \<noteq> [] then
           (let tags = filter (\<lambda>t. tag_id t \<in> set tag_ids) (db_tags d)
            in if tags = [] then
                 Inl (RequestError (''Tag(s) with ID(s) '' @ fmt_int_list tag_ids
                                    @ '' do(es) not exist.''))
               else
                 (let things = filter (\<lambda>t. thing_id t \<in> set thing_ids) (db_things d)
                  in if things = [] then
                       Inl (RequestError (''Thing(s) with ID(s) '' @ fmt_int_list tag_ids
                                          @ '' do(es) not exist.''))
                     else Inr (True, things, tags)))
         else if current_status \<noteq> VStr ''approved'' \<and> req_status = Some (VStr ''approved'')
         then Inl (RequestError
                (''To approve an event you must assign it to one or more ''
                 @ ''Things or Tags by using the '' @ dq @ ''thing_ids'' @ dq
                 @ '' and '' @ dq @ ''tag_ids'' @ dq @ '' fields.''))
         else Inr (False, [], []))"

text \<open>
  The endpoint. \<open>columns\<close> is \<open>get_table_columns(Event)\<close> and \<open>now\<close>
  is \<open>dates.now()\<close>; both helpers are outside the sources and are parameters, as
  is \<open>accepts\<close>, the database's verdict on the commit.
  The result is the exception raised, or the event returned together with the
  database after the commit. An exception leaves before the commit has stored
  anything, so nothing that was set on the object is kept.
\<close>

definition event_update ::
  "(db \<Rightarrow> event \<Rightarrow> event \<Rightarrow> bool) \<Rightarrow> string list \<Rightarrow> nat \<Rightarrow> db \<Rightarrow> int \<Rightarrow> int \<Rightarrow>
   request \<Rightarrow> error + (event \<times> db)" where
  "event_update accepts columns now d org event_id rq =
     (case load_event d org event_id of
        None \<Rightarrow> Inl (not_exist event_id)
      | Some e \<Rightarrow>
          (case check_approval d rq e of
             Inl err \<Rightarrow> Inl err
           | Inr (approve, things, tags) \<Rightarrow>
               (let req_data1 = filter (\<lambda>(k, v). k \<in> set columns) (req_data rq);
                    req_data2 = (if approve
                                 then AList.update ''status'' (VStr ''approved'') req_data1
                                 else req_data1);
                    req_data3 = AList.update ''updated'' (VTime now) req_data2;
                    e1 = fold (\<lambda>(k, v). setattr k v) req_data3 e;
                    e2 = e1\<lparr>ev_organization_id := VInt org\<rparr>
                in if approve then
                     (case associate (zip things tags) e2 of
                        Inl err \<Rightarrow> Inl err
                      | Inr e3 \<Rightarrow> commit_update accepts org event_id e e3 d)
                   else commit_update accepts org event_id e e2 d)))"

section \<open>event_delete (events_api.py, lines 394-427)\<close>

text \<open>
  \<open>events_tags.delete(events_tags.c.event_id == event_id)\<close> and the same on
  \<open>things_events\<close>: every association row that carries the id goes, which
  empties the collections of the event(s) with that id. The row itself stays and
  gets the status \<open>deleted\<close>.
\<close>

definition delete_associations :: "int \<Rightarrow> event \<Rightarrow> event" where
  "delete_associations event_id x =
     (if ev_id x = VInt event_id then x\<lparr>ev_tags := [], ev_things := []\<rparr> else x)"

definition event_delete :: "nat \<Rightarrow> db \<Rightarrow> int \<Rightarrow> int \<Rightarrow> error + (event \<times> db)" where
  "event_delete now d org event_id =
     (case load_event d org event_id of
        None \<Rightarrow> Inl (not_exist event_id)
      | Some e \<Rightarrow>
          (let d1 = d\<lparr>db_events := map (delete_associations event_id) (db_events d)\<rparr>;
               e1 = (delete_associations event_id e)
                      \<lparr>ev_status := VStr ''deleted'', ev_updated := VTime now\<rparr>
           in Inr (e1, commit_event org event_id e1 d1)))"

section \<open>The four association endpoints (events_api.py, lines 430-553)\<close>

definition event_add_tag ::
  "nat \<Rightarrow> db \<Rightarrow> int \<Rightarrow> int \<Rightarrow> int \<Rightarrow> error + (event \<times> db)" where
  "event_add_tag now d org event_id tid =
     (case load_event d org event_id of
        None \<Rightarrow> Inl (not_exist event_id)
      | Some e \<Rightarrow>
          if ev_status e \<noteq> VStr ''approved'' then
            Inl (RequestError
              ''You must first approve an Event before adding additional Tags.'')
          else
            (case find (\<lambda>t. tag_id t = tid \<and> tag_org_id t = org) (db_tags d) of
               None \<Rightarrow>
                 Inl (RequestError (''Tag with ID '' @ fmt_int tid @ '' does not exist.''))
             | Some tag \<Rightarrow>
                 if tag_type tag \<noteq> ''impact'' then
                   Inl (RequestError ''Events can only be assigned Impact Tags.'')
                 else
                   (let e1 = (if tag_id tag \<notin> set (ev_tag_ids e)
                              then e\<lparr>ev_tags := ev_tags e @ [tag]\<rparr> else e);
                        e2 = e1\<lparr>ev_updated := VTime now\<rparr>
                    in Inr (e2, commit_event org event_id e2 d))))"

text \<open>
  \<open>for x in xs: if p(x): xs.remove(x)\<close>: Python walks the list by index while
  \<open>remove\<close> deletes the first element equal to \<open>x\<close>, so the element that
  slides into the freed position is skipped.
\<close>

function remove_matching :: "('a \<Rightarrow> bool) \<Rightarrow> nat \<Rightarrow> 'a list \<Rightarrow> 'a list" where
  "remove_matching P i xs =
     (if i < length xs then
        (if P (xs ! i) then remove_matching P (Suc i) (remove1 (xs ! i) xs)
         else remove_matching P (Suc i) xs)
      else xs)"
  by pat_completeness auto
termination
  by (relation "measure (\<lambda>(P, i, xs). length xs - i)") (auto simp: length_remove1)

declare remove_matching.simps [simp del]

definition not_associated :: "int \<Rightarrow> string \<Rightarrow> int \<Rightarrow> error" where
  "not_associated event_id what other_id =
     RequestError (''An Event with ID '' @ fmt_int event_id
       @ '' does not currently have an association with a '' @ what
       @ '' with ID '' @ fmt_int other_id)"

definition event_delete_tag ::
  "nat \<Rightarrow> db \<Rightarrow> int \<Rightarrow> int \<Rightarrow> int \<Rightarrow> error + (event \<times> db)" where
  "event_delete_tag now d org event_id tid =
     (case load_event d org event_id of
        None \<Rightarrow> Inl (not_exist event_id)
      | Some e \<Rightarrow>
          if tid \<notin> set (ev_tag_ids e) then Inl (not_associated event_id ''Tag'' tid)
          else
            (let e1 = e\<lparr>ev_tags := remove_matching (\<lambda>t. tag_id t = tid) 0 (ev_tags e)\<rparr>;
                 e2 = e1\<lparr>ev_updated := VTime now\<rparr>
             in Inr (e2, commit_event org event_id e2 d)))"

definition event_add_thing ::
  "nat \<Rightarrow> db \<Rightarrow> int \<Rightarrow> int \<Rightarrow> int \<Rightarrow> error + (event \<times> db)" where
  "event_add_thing now d org event_id thid =
     (case load_event d org event_id of
        None \<Rightarrow> Inl (not_exist event_id)
      | Some e \<Rightarrow>
          if ev_status e \<noteq> VStr ''approved'' then
            Inl (RequestError
              ''You must first approve an Event before adding additional Things.'')
          else
            (case find (\<lambda>t. thing_id t = thid \<and> thing_org_id t = org) (db_things d) of
               None \<Rightarrow>
                 Inl (RequestError (''Thing with ID '' @ fmt_int thid @ '' does not exist.''))
             | Some thing \<Rightarrow>
                 (let e1 = (if thing_id thing \<notin> set (ev_thing_ids e)
                            then e\<lparr>ev_things := ev_things e @ [thing]\<rparr> else e);
                      e2 = e1\<lparr>ev_updated := VTime now\<rparr>
                  in Inr (e2, commit_event org event_id e2 d))))"

definition event_delete_thing ::
  "nat \<Rightarrow> db \<Rightarrow> int \<Rightarrow> int \<Rightarrow> int \<Rightarrow> error + (event \<times> db)" where
  "event_delete_thing now d org event_id thid =
     (case load_event d org event_id of
        None \<Rightarrow> Inl (not_exist event_id)
      | Some e \<Rightarrow>
          if thid \<notin> set (ev_thing_ids e) then Inl (not_associated event_id ''Thing'' thid)
          else
            (let e1 = e\<lparr>ev_things :=
                          remove_matching (\<lambda>t. thing_id t = thid) 0 (ev_things e)\<rparr>;
                 e2 = e1\<lparr>ev_updated := VTime now\<rparr>
             in Inr (e2, commit_event org event_id e2 d)))"

text \<open>
  What is stored after a request: an exception leaves the view before
  \<open>db.session.commit()\<close>, so the database is the one the request found.
\<close>

definition stored :: "db \<Rightarrow> error + ('a \<times> db) \<Rightarrow> db" where
  "stored d r = (case r of Inl err \<Rightarrow> d | Inr (x, d') \<Rightarrow> d')"

section \<open>apply_event_filters (events_api.py, lines 22-79)\<close>

text \<open>
  SQL comparisons on a column: a \<open>NULL\<close> column satisfies neither
  \<open>IN\<close> nor \<open>NOT IN\<close>, and no inequality.
\<close>

definition col_in :: "val \<Rightarrow> int list \<Rightarrow> bool" where
  "col_in v xs = (case v of VInt i \<Rightarrow> i \<in> set xs | _ \<Rightarrow> False)"

definition col_not_in :: "val \<Rightarrow> int list \<Rightarrow> bool" where
  "col_not_in v xs = (case v of VInt i \<Rightarrow> i \<notin> set xs | _ \<Rightarrow> False)"

definition col_ge :: "val \<Rightarrow> nat \<Rightarrow> bool" where
  "col_ge v t = (case v of VTime c \<Rightarrow> t \<le> c | _ \<Rightarrow> False)"

definition col_le :: "val \<Rightarrow> nat \<Rightarrow> bool" where
  "col_le v t = (case v of VTime c \<Rightarrow> c \<le> t | _ \<Rightarrow> False)"

text \<open>
  The three shapes of a conditional restriction of a query:
  \<open>if c: q = q.filter(p)\<close> for a condition such as \<open>len(ids)\<close>;
  \<open>if arg: q = q.filter(p(arg))\<close> for an optional date, which is \<open>None\<close>
  or a datetime (always true); and the same for an optional string, which is false
  when it is \<open>None\<close> or empty.
\<close>

definition filter_if :: "bool \<Rightarrow> ('a \<Rightarrow> bool) \<Rightarrow> 'a list \<Rightarrow> 'a list" where
  "filter_if c p q = (if c then filter p q else q)"

definition filter_date :: "nat option \<Rightarrow> (nat \<Rightarrow> 'a \<Rightarrow> bool) \<Rightarrow> 'a list \<Rightarrow> 'a list" where
  "filter_date arg p q = (case arg of None \<Rightarrow> q | Some t \<Rightarrow> filter (p t) q)"

definition filter_str ::
  "string option \<Rightarrow> (string \<Rightarrow> 'a \<Rightarrow> bool) \<Rightarrow> 'a list \<Rightarrow> 'a list" where
  "filter_str arg p q =
     (case arg of None \<Rightarrow> q | Some s \<Rightarrow> if s \<noteq> [] then filter (p s) q else q)"

text \<open>The keyword arguments that \<open>apply_event_filters\<close> reads.\<close>

record event_kw =
  ek_org :: int
  ek_search_query :: "string option"
  ek_status :: string
  ek_created_after :: "nat option"
  ek_created_before :: "nat option"
  ek_updated_after :: "nat option"
  ek_updated_before :: "nat option"
  ek_categories :: "string list option"
  ek_levels :: "string list option"
  ek_include_recipes :: "int list"
  ek_exclude_recipes :: "int list"
  ek_include_tags :: "int list"
  ek_exclude_tags :: "int list"
  ek_include_things :: "int list"
  ek_exclude_things :: "int list"
  ek_include_tasks :: "string list"
  ek_exclude_tasks :: "string list"

text \<open>
  \<open>db.session.query(Recipe.id).filter(Recipe.task.has(Task.name.in_(names)))\<close>
\<close>

definition task_recipes :: "db \<Rightarrow> string list \<Rightarrow> int list" where
  "task_recipes d names =
     map recipe_id
       (filter (\<lambda>r. case recipe_task r of None \<Rightarrow> False | Some n \<Rightarrow> n \<in> set names)
          (db_recipes d))"

text \<open>
  A query is the list of rows it selects; \<open>q.filter(p)\<close> keeps the rows that
  satisfy \<open>p\<close>. \<open>search\<close> is the full-text match of \<open>q.search\<close>, an
  external collaborator.
\<close>

definition apply_event_filters ::
  "(string \<Rightarrow> event \<Rightarrow> bool) \<Rightarrow> db \<Rightarrow> event list \<Rightarrow> event_kw \<Rightarrow> event list" where
  "apply_event_filters search d q kw =
     (let q = filter (\<lambda>e. ev_organization_id e = VInt (ek_org kw)) q;
          q = filter_str (ek_search_query kw) search q;
          q = filter_if (ek_status kw \<noteq> ''all'')
                (\<lambda>e. ev_status e = VStr (ek_status kw)) q;
          q = filter_date (ek_created_after kw) (\<lambda>t e. col_ge (ev_created e) t) q;
          q = filter_date (ek_created_before kw) (\<lambda>t e. col_le (ev_created e) t) q;
          q = filter_date (ek_updated_after kw) (\<lambda>t e. col_ge (ev_updated e) t) q;
          q = filter_date (ek_updated_before kw) (\<lambda>t e. col_le (ev_updated e) t) q;
          q = filter_if (ek_include_recipes kw \<noteq> [])
                (\<lambda>e. col_in (ev_recipe_id e) (ek_include_recipes kw)) q;
          q = filter_if (ek_exclude_recipes kw \<noteq> [])
                (\<lambda>e. col_not_in (ev_recipe_id e) (ek_exclude_recipes kw)) q;
          q = filter_if (ek_include_tags kw \<noteq> [])
                (\<lambda>e. list_ex (\<lambda>t. tag_id t \<in> set (ek_include_tags kw)) (ev_tags e)) q;
          q = filter_if (ek_exclude_tags kw \<noteq> [])
                (\<lambda>e. \<not> list_ex (\<lambda>t. tag_id t \<in> set (ek_exclude_tags kw)) (ev_tags e)) q;
          q = filter_if (ek_include_things kw \<noteq> [])
                (\<lambda>e. list_ex (\<lambda>t. thing_id t \<in> set (ek_include_things kw)) (ev_things e)) q;
          q = filter_if (ek_exclude_things kw \<noteq> [])
                (\<lambda>e. \<not> list_ex (\<lambda>t. thing_id t \<in> set (ek_exclude_things kw)) (ev_things e)) q;
          q = filter_if (ek_include_tasks kw \<noteq> [])
                (\<lambda>e. col_in (ev_recipe_id e) (task_recipes d (ek_include_tasks kw))) q;
          q = filter_if (ek_exclude_tasks kw \<noteq> [])
                (\<lambda>e. col_not_in (ev_recipe_id e) (task_recipes d (ek_exclude_tasks kw))) q
      in q)"

section \<open>apply_content_item_filters (content_api.py, lines 28-182)\<close>

text \<open>The keyword arguments that \<open>apply_content_item_filters\<close> reads.\<close>

record content_kw =
  ck_org_id :: int
  ck_search_query :: "string option"
  ck_sort_field :: string
  ck_search_vector :: string
  ck_type :: string
  ck_provenance :: "string option"
  ck_url :: "string option"
  ck_url_regex :: "string option"
  ck_domain :: "string option"
  ck_created_after :: "nat option"
  ck_created_before :: "nat option"
  ck_updated_after :: "nat option"
  ck_updated_before :: "nat option"
  ck_include_recipes :: "int list"
  ck_exclude_recipes :: "int list"
  ck_include_categories :: "string list"
  ck_exclude_categories :: "string list"
  ck_include_levels :: "string list"
  ck_exclude_levels :: "string list"
  ck_include_tags :: "int list"
  ck_exclude_tags :: "int list"
  ck_include_sous_chefs :: "string list"
  ck_exclude_sous_chefs :: "string list"

text \<open>
  The search vector of lines 46-58: the union of all vectors, the authors' vector, or
  the attribute \<open>ContentItem.<name>_search_vector\<close>, which exists for the four
  names of content_item.py, lines 73-76; \<open>getattr\<close> raises for any other.
\<close>

datatype vector = AllVectors | AuthorVector | ItemVector string

definition select_vector :: "string \<Rightarrow> error + vector" where
  "select_vector name =
     (if name = ''all'' then Inr AllVectors
      else if name = ''authors'' then Inr AuthorVector
      else if name \<in> set [''title'', ''body'', ''description'', ''meta'']
      then Inr (ItemVector name)
      else Inl (AttributeError (name @ ''_search_vector'')))"

text \<open>Nullable columns: \<open>NULL\<close> satisfies no comparison.\<close>

definition opt_in :: "'a option \<Rightarrow> 'a list \<Rightarrow> bool" where
  "opt_in v xs = (case v of None \<Rightarrow> False | Some x \<Rightarrow> x \<in> set xs)"

definition opt_not_in :: "'a option \<Rightarrow> 'a list \<Rightarrow> bool" where
  "opt_not_in v xs = (case v of None \<Rightarrow> False | Some x \<Rightarrow> x \<notin> set xs)"

definition opt_ge :: "nat option \<Rightarrow> nat \<Rightarrow> bool" where
  "opt_ge v t = (case v of None \<Rightarrow> False | Some c \<Rightarrow> t \<le> c)"

definition opt_le :: "nat option \<Rightarrow> nat \<Rightarrow> bool" where
  "opt_le v t = (case v of None \<Rightarrow> False | Some c \<Rightarrow> c \<le> t)"

text \<open>
  The rows of \<open>events_tags\<close> joined with \<open>Tag\<close>: one row per event and tag
  of its collection, with the event's id.
\<close>

definition events_tags :: "db \<Rightarrow> (val \<times> tag) list" where
  "events_tags d = concat (map (\<lambda>e. map (\<lambda>t. (ev_id e, t)) (ev_tags e)) (db_events d))"

text \<open>The rows of \<open>things_events\<close>, likewise.\<close>

definition things_events :: "db \<Rightarrow> (val \<times> thing) list" where
  "things_events d =
     concat (map (\<lambda>e. map (\<lambda>t. (ev_id e, t)) (ev_things e)) (db_events d))"

text \<open>
  \<open>db.session.query(events_tags.c.event_id).join(Tag).filter_by(org_id=...)
  .filter(Tag.category.in_(categories)).all()\<close>, and the same with
  \<open>Tag.level\<close>: one id per matching association row, so an event with two
  matching tags is listed twice.
\<close>

definition category_event_ids :: "db \<Rightarrow> int \<Rightarrow> string list \<Rightarrow> val list" where
  "category_event_ids d org categories =
     map fst (filter (\<lambda>(i, t). tag_org_id t = org \<and> opt_in (tag_category t) categories)
                (events_tags d))"

definition level_event_ids :: "db \<Rightarrow> int \<Rightarrow> string list \<Rightarrow> val list" where
  "level_event_ids d org levels =
     map fst (filter (\<lambda>(i, t). tag_org_id t = org \<and> opt_in (tag_level t) levels)
                (events_tags d))"

text \<open>\<open>ContentItem.events.any(Event.id.in_(event_ids))\<close>\<close>

definition has_event_in :: "val list \<Rightarrow> content_item \<Rightarrow> bool" where
  "has_event_in event_ids c = list_ex (\<lambda>i. i \<in> set event_ids) (ci_events c)"

text \<open>
  \<open>for e in event_ids: all_event_ids.add(e)\<close> and
  \<open>for e in event_ids: all_event_ids.remove(e)\<close> on a Python set:
  \<open>remove\<close> raises \<open>KeyError\<close> for an element that is not in the set.
\<close>

fun add_all :: "val list \<Rightarrow> val set \<Rightarrow> val set" where
  "add_all [] s = s"
| "add_all (e # es) s = add_all es (insert e s)"

fun remove_all :: "val list \<Rightarrow> val set \<Rightarrow> error + val set" where
  "remove_all [] s = Inr s"
| "remove_all (e # es) s = (if e \<in> s then remove_all es (s - {e}) else Inl (KeyError e))"

text \<open>
  The include blocks (lines 101-114 and 128-139) and the exclude blocks (lines
  116-126 and 141-153), given the event ids their query returned. Both kinds
  restrict the query to the items that have an event among the ids.
\<close>

definition include_events ::
  "val list \<Rightarrow> content_item list \<times> val set \<Rightarrow> content_item list \<times> val set" where
  "include_events event_ids qs =
     (case qs of (q, all_event_ids) \<Rightarrow>
        (filter (has_event_in event_ids) q, add_all event_ids all_event_ids))"

definition exclude_events ::
  "val list \<Rightarrow> content_item list \<times> val set \<Rightarrow> error + (content_item list \<times> val set)" where
  "exclude_events event_ids qs =
     (case qs of (q, all_event_ids) \<Rightarrow>
        (case remove_all event_ids all_event_ids of
           Inl err \<Rightarrow> Inl err
         | Inr all_event_ids' \<Rightarrow> Inr (filter (has_event_in event_ids) q, all_event_ids')))"

text \<open>
  \<open>db.session.query(Recipe.id)
  .filter(Recipe.sous_chef.has(SousChef.name.in_(names)))\<close>
\<close>

definition sous_chef_recipes :: "db \<Rightarrow> string list \<Rightarrow> int list" where
  "sous_chef_recipes d names =
     map recipe_id (filter (\<lambda>r. opt_in (recipe_sous_chef r) names) (db_recipes d))"

text \<open>Lines 40-97: the search and the filters on the item's own columns.\<close>

definition column_filters ::
  "(string \<Rightarrow> vector \<Rightarrow> content_item \<Rightarrow> bool) \<Rightarrow> (string \<Rightarrow> string \<Rightarrow> bool) \<Rightarrow>
   content_item list \<Rightarrow> content_kw \<Rightarrow> error + content_item list" where
  "column_filters search regex q kw =
     (case (case ck_search_query kw of
              None \<Rightarrow> Inr q
            | Some s \<Rightarrow>
                if s \<noteq> [] then
                  (case select_vector (ck_search_vector kw) of
                     Inl err \<Rightarrow> Inl err
                   | Inr vector \<Rightarrow> Inr (filter (search s vector) q))
                else Inr q) of
        Inl err \<Rightarrow> Inl err
      | Inr q \<Rightarrow>
          (let q = filter_if (ck_type kw \<noteq> ''all'') (\<lambda>c. ci_type c = Some (ck_type kw)) q;
               q = filter_str (ck_provenance kw) (\<lambda>p c. ci_provenance c = Some p) q;
               q = filter_str (ck_url kw) (\<lambda>u c. ci_url c = Some u) q;
               q = filter_str (ck_url_regex kw)
                     (\<lambda>r c. case ci_url c of None \<Rightarrow> False | Some u \<Rightarrow> regex r u) q;
               q = filter_str (ck_domain kw) (\<lambda>dm c. ci_domain c = Some dm) q;
               q = filter_date (ck_created_after kw) (\<lambda>t c. opt_ge (ci_created c) t) q;
               q = filter_date (ck_created_before kw) (\<lambda>t c. opt_le (ci_created c) t) q;
               q = filter_date (ck_updated_after kw) (\<lambda>t c. opt_ge (ci_updated c) t) q;
               q = filter_date (ck_updated_before kw) (\<lambda>t c. opt_le (ci_updated c) t) q;
               q = filter_if (ck_include_recipes kw \<noteq> [])
                     (\<lambda>c. opt_in (ci_recipe_id c) (ck_include_recipes kw)) q;
               q = filter_if (ck_exclude_recipes kw \<noteq> [])
                     (\<lambda>c. opt_not_in (ci_recipe_id c) (ck_exclude_recipes kw)) q
           in Inr q))"

text \<open>Lines 99-153: the category and level blocks, in the order of the source.\<close>

definition event_filters ::
  "db \<Rightarrow> content_kw \<Rightarrow> content_item list \<times> val set \<Rightarrow>
   error + (content_item list \<times> val set)" where
  "event_filters d kw qs =
     (let qs = (if ck_include_categories kw \<noteq> []
                then include_events
                       (category_event_ids d (ck_org_id kw) (ck_include_categories kw)) qs
                else qs)
      in case (if ck_exclude_categories kw \<noteq> []
               then exclude_events
                      (category_event_ids d (ck_org_id kw) (ck_exclude_categories kw)) qs
               else Inr qs) of
           Inl err \<Rightarrow> Inl err
         | Inr qs \<Rightarrow>
             (let qs = (if ck_include_levels kw \<noteq> []
                        then include_events
                               (level_event_ids d (ck_org_id kw) (ck_include_levels kw)) qs
                        else qs)
              in if ck_exclude_levels kw \<noteq> []
                 then exclude_events
                        (level_event_ids d (ck_org_id kw) (ck_exclude_levels kw)) qs
                 else Inr qs))"

text \<open>Lines 155-180: the tag and sous-chef filters.\<close>

definition tag_filters :: "db \<Rightarrow> content_kw \<Rightarrow> content_item list \<Rightarrow> content_item list" where
  "tag_filters d kw q =
     (let q = filter_if (ck_include_tags kw \<noteq> [])
                (\<lambda>c. list_ex (\<lambda>t. tag_id t \<in> set (ck_include_tags kw)) (ci_tags c)) q;
          q = filter_if (ck_exclude_tags kw \<noteq> [])
                (\<lambda>c. \<not> list_ex (\<lambda>t. tag_id t \<in> set (ck_exclude_tags kw)) (ci_tags c)) q;
          q = filter_if (ck_include_sous_chefs kw \<noteq> [])
                (\<lambda>c. opt_in (ci_recipe_id c)
                       (sous_chef_recipes d (ck_include_sous_chefs kw))) q;
          q = filter_if (ck_exclude_sous_chefs kw \<noteq> [])
                (\<lambda>c. opt_not_in (ci_recipe_id c)
                       (sous_chef_recipes d (ck_exclude_sous_chefs kw))) q
      in q)"

text \<open>
  The filter composer. \<open>search\<close> is the external full-text match of a query
  string on a vector and \<open>regex\<close> the database's pattern match \<open>~\<close>; ranking
  by relevance reorders the rows and is not part of the row set. The result is the
  exception raised, or the narrowed query with the accumulated event ids (the
  set whose elements \<open>list(all_event_ids)\<close> lists in no particular order).
\<close>

definition apply_content_item_filters ::
  "(string \<Rightarrow> vector \<Rightarrow> content_item \<Rightarrow> bool) \<Rightarrow> (string \<Rightarrow> string \<Rightarrow> bool) \<Rightarrow>
   db \<Rightarrow> content_item list \<Rightarrow> content_kw \<Rightarrow> error + (content_item list \<times> val set)" where
  "apply_content_item_filters search regex d q kw =
     (let q = filter (\<lambda>c. ci_org_id c = ck_org_id kw) q;
          all_event_ids = {}
      in case column_filters search regex q kw of
           Inl err \<Rightarrow> Inl err
         | Inr q \<Rightarrow>
             (case event_filters d kw (q, all_event_ids) of
                Inl err \<Rightarrow> Inl err
              | Inr (q, all_event_ids) \<Rightarrow> Inr (tag_filters d kw q, all_event_ids)))"

text \<open>
  The event ids that the two exclude blocks take out of the accumulator, in the
  order in which the blocks run.
\<close>

definition removed_event_ids :: "db \<Rightarrow> content_kw \<Rightarrow> val list" where
  "removed_event_ids d kw =
     (if ck_exclude_categories kw \<noteq> []
      then category_event_ids d (ck_org_id kw) (ck_exclude_categories kw) else [])
     @ (if ck_exclude_levels kw \<noteq> []
        then level_event_ids d (ck_org_id kw) (ck_exclude_levels kw) else [])"

section \<open>content_items (content_api.py, lines 376-390)\<close>

text \<open>
  The view has the parameters \<open>user\<close>, \<open>org\<close> and \<open>content_item_id\<close> and
  the local \<open>c\<close>. Its error message formats the name \<open>event_id\<close>, which is
  none of them, so Python looks it up among the module's globals. The module binds
  no such name itself; \<open>globals\<close> stands for whatever
  \<open>from newslynx.views.util import *\<close> (not among the sources) may bind.
\<close>

definition content_items ::
  "(string \<Rightarrow> val option) \<Rightarrow> db \<Rightarrow> int \<Rightarrow> int \<Rightarrow> error + content_item" where
  "content_items globals d org content_item_id =
     (case find (\<lambda>c. ci_id c = content_item_id \<and> ci_org_id c = org) (db_content d) of
        Some c \<Rightarrow> Inr c
      | None \<Rightarrow>
          (case globals ''event_id'' of
             None \<Rightarrow> Inl (NameError ''event_id'')
           | Some v \<Rightarrow>
               Inl (NotFoundError
                 (''An ContentItem with ID '' @ fmt_val v @ '' does not exist.''))))"

section \<open>Example data\<close>

text \<open>
  Organization 1 with three tags (two impact tags and a subject tag) and two things;
  the examples below build their events from these.
\<close>

definition impact_tag :: "int \<Rightarrow> string \<Rightarrow> string \<Rightarrow> tag" where
  "impact_tag i c l =
     \<lparr>tag_id = i, tag_org_id = 1, tag_type = ''impact'',
      tag_category = Some c, tag_level = Some l\<rparr>"

definition subject_tag :: "int \<Rightarrow> tag" where
  "subject_tag i =
     \<lparr>tag_id = i, tag_org_id = 1, tag_type = ''subject'',
      tag_category = None, tag_level = None\<rparr>"

definition a_thing :: "int \<Rightarrow> thing" where
  "a_thing i = \<lparr>thing_id = i, thing_org_id = 1\<rparr>"

definition an_event :: "int \<Rightarrow> string \<Rightarrow> tag list \<Rightarrow> thing list \<Rightarrow> event" where
  "an_event i st ts hs =
     \<lparr>ev_id = VInt i, ev_organization_id = VInt 1, ev_recipe_id = VNone,
      ev_status = VStr st, ev_created = VTime 100, ev_updated = VTime 100, ev_other = [],
      ev_tags = ts, ev_things = hs\<rparr>"

definition ex_tags :: "tag list" where
  "ex_tags = [impact_tag 1 ''promotion'' ''media'',
              impact_tag 2 ''citation'' ''institution'', subject_tag 3]"

text \<open>A database whose only event, number 10, is pending and has no associations.\<close>

definition ex_db :: db where
  "ex_db =
     \<lparr>db_events = [an_event 10 ''pending'' [] []], db_tags = ex_tags,
      db_things = [a_thing 5, a_thing 6], db_recipes = [], db_content = []\<rparr>"

text \<open>
  An example of a database's verdict on a commit: the id is an integer and the primary
  key, the status is one of the three states, the dates are datetimes, and the
  recipe is absent or an integer.
\<close>

definition is_int :: "val \<Rightarrow> bool" where
  "is_int v = (case v of VInt i \<Rightarrow> True | _ \<Rightarrow> False)"

definition is_time :: "val \<Rightarrow> bool" where
  "is_time v = (case v of VTime t \<Rightarrow> True | _ \<Rightarrow> False)"

definition ex_accepts :: "db \<Rightarrow> event \<Rightarrow> event \<Rightarrow> bool" where
  "ex_accepts d e e' \<longleftrightarrow>
     is_int (ev_id e') \<and>
     (ev_id e' = ev_id e \<or> ev_id e' \<notin> set (map ev_id (db_events d))) \<and>
     ev_status e' \<in> set [VStr ''pending'', VStr ''approved'', VStr ''deleted''] \<and>
     is_time (ev_created e') \<and> is_time (ev_updated e') \<and>
     (ev_recipe_id e' = VNone \<or> is_int (ev_recipe_id e'))"

definition ex_columns :: "string list" where
  "ex_columns =
     [''id'', ''organization_id'', ''recipe_id'', ''status'', ''created'', ''updated'',
      ''title'']"

text \<open>
  Event 10 after an approval with tag 1 and thing 5 at time 200, and the search
  arguments of a request without parameters (the status defaults to \<open>pending\<close>).
\<close>

definition approved_event :: event where
  "approved_event =
     (an_event 10 ''approved'' [impact_tag 1 ''promotion'' ''media''] [a_thing 5])
       \<lparr>ev_updated := VTime 200\<rparr>"

definition default_search :: event_kw where
  "default_search =
     \<lparr>ek_org = 1, ek_search_query = None, ek_status = ''pending'',
      ek_created_after = None, ek_created_before = None,
      ek_updated_after = None, ek_updated_before = None,
      ek_categories = None, ek_levels = None,
      ek_include_recipes = [], ek_exclude_recipes = [],
      ek_include_tags = [], ek_exclude_tags = [],
      ek_include_things = [], ek_exclude_things = [],
      ek_include_tasks = [], ek_exclude_tasks = []\<rparr>"

text \<open>
  The database after that approval, and after a later update that sets the status
  back to \<open>pending\<close> at time 250: the event is pending again and still has its
  tag and its thing.
\<close>

definition ex_approved_db :: db where
  "ex_approved_db = ex_db\<lparr>db_events := [approved_event]\<rparr>"

definition reverted_event :: event where
  "reverted_event = approved_event\<lparr>ev_status := VStr ''pending'', ev_updated := VTime 250\<rparr>"

definition ex_reverted_db :: db where
  "ex_reverted_db = ex_db\<lparr>db_events := [reverted_event]\<rparr>"

text \<open>
  A database for the content search: event 20 carries a \<open>promotion\<close> tag and a
  \<open>citation\<close> tag; content item 100 is related to event 20 and item 101 to no
  event. \<open>no_filters\<close> are the arguments of a search without parameters.
\<close>

definition an_item :: "int \<Rightarrow> val list \<Rightarrow> content_item" where
  "an_item i evs =
     \<lparr>ci_id = i, ci_org_id = 1, ci_recipe_id = None, ci_type = Some ''article'',
      ci_provenance = Some ''recipe'', ci_url = None, ci_domain = None,
      ci_created = Some 100, ci_updated = Some 100, ci_title = None,
      ci_description = None, ci_body = None, ci_tags = [], ci_events = evs\<rparr>"

definition ex_content_db :: db where
  "ex_content_db =
     \<lparr>db_events = [an_event 20 ''approved''
                     [impact_tag 1 ''promotion'' ''media'',
                      impact_tag 2 ''citation'' ''institution''] [a_thing 5]],
      db_tags = ex_tags, db_things = [a_thing 5, a_thing 6], db_recipes = [],
      db_content = [an_item 100 [VInt 20], an_item 101 []]\<rparr>"

definition no_filters :: content_kw where
  "no_filters =
     \<lparr>ck_org_id = 1, ck_search_query = None, ck_sort_field = ''created'',
      ck_search_vector = ''all'', ck_type = ''all'', ck_provenance = None,
      ck_url = None, ck_url_regex = None, ck_domain = None,
      ck_created_after = None, ck_created_before = None,
      ck_updated_after = None, ck_updated_before = None,
      ck_include_recipes = [], ck_exclude_recipes = [],
      ck_include_categories = [], ck_exclude_categories = [],
      ck_include_levels = [], ck_exclude_levels = [],
      ck_include_tags = [], ck_exclude_tags = [],
      ck_include_sous_chefs = [], ck_exclude_sous_chefs = []\<rparr>"

section \<open>Facts about the helpers\<close>

lemmas ex_defs =
  ex_db_def ex_tags_def an_event_def impact_tag_def subject_tag_def a_thing_def ex_columns_def

lemmas update_defs =
  event_update_def load_event_def is_event_def check_approval_def setattr_def
  commit_update_def commit_event_def ev_tag_ids_def ev_thing_ids_def
  ex_accepts_def is_int_def is_time_def

lemma find_Some_holds: "find P xs = Some e \<Longrightarrow> P e \<and> e \<in> set xs"
  by (induction xs) (auto split: if_splits)

lemma replace_first_mem: "find P xs = Some e \<Longrightarrow> y \<in> set (replace_first P y xs)"
  by (induction xs) (auto split: if_splits)

lemma length_replace_first: "length (replace_first P y xs) = length xs"
  by (induction xs) auto

lemma map_replace_first:
  "(\<And>x. P x \<Longrightarrow> f x = f y) \<Longrightarrow> map f (replace_first P y xs) = map f xs"
  by (induction xs) auto

lemma associate_org:
  "associate ps e = Inr e' \<Longrightarrow> ev_organization_id e' = ev_organization_id e"
  by (induction ps e rule: associate.induct) (auto simp: Let_def split: if_splits)

lemma associate_status: "associate ps e = Inr e' \<Longrightarrow> ev_status e' = ev_status e"
  by (induction ps e rule: associate.induct) (auto simp: Let_def split: if_splits)

lemma replace_first_subset: "set (replace_first P y xs) \<subseteq> insert y (set xs)"
  by (induction xs) auto

lemma replace_first_unique:
  "distinct (map f xs) \<Longrightarrow> find P xs = Some a \<Longrightarrow> z \<in> set (replace_first P y xs) \<Longrightarrow>
   f z = f a \<Longrightarrow> z = y"
proof (induction xs)
  case Nil
  then show ?case by simp
next
  case (Cons x xs)
  from Cons.prems(1) have fresh: "\<And>w. w \<in> set xs \<Longrightarrow> f w \<noteq> f x"
    by (metis distinct.simps(2) imageI list.simps(9) list.set_map)
  show ?case
  proof (cases "P x")
    case True
    with Cons.prems have "a = x" and "z = y \<or> z \<in> set xs" by auto
    then show ?thesis using fresh Cons.prems(4) by auto
  next
    case False
    with Cons.prems have f: "find P xs = Some a" by simp
    then have "a \<in> set xs" by (simp add: find_Some_holds)
    then have "z \<noteq> x" using fresh Cons.prems(4) by metis
    with Cons.prems False f show ?thesis using Cons.IH by auto
  qed
qed

lemma find_map_delete:
  "find (is_event org i) (map (delete_associations j) xs) =
   map_option (delete_associations j) (find (is_event org i) xs)"
  by (induction xs) (auto simp: is_event_def delete_associations_def)

lemma ev_id_delete [simp]: "ev_id (delete_associations j x) = ev_id x"
  by (simp add: delete_associations_def)

text \<open>Membership in a conditionally restricted query.\<close>

lemma in_filter_if [simp]: "x \<in> set (filter_if c p q) \<longleftrightarrow> x \<in> set q \<and> (c \<longrightarrow> p x)"
  by (simp add: filter_if_def)

lemma in_filter_date [simp]:
  "x \<in> set (filter_date a p q) \<longleftrightarrow> x \<in> set q \<and> (\<forall>t. a = Some t \<longrightarrow> p t x)"
  by (cases a) (auto simp: filter_date_def)

lemma in_filter_str [simp]:
  "x \<in> set (filter_str a p q) \<longleftrightarrow>
   x \<in> set q \<and> (\<forall>s. a = Some s \<longrightarrow> s \<noteq> [] \<longrightarrow> p s x)"
  by (cases a) (auto simp: filter_str_def)

lemma event_filters_status:
  "x \<in> set (apply_event_filters search d q kw) \<Longrightarrow> ek_status kw \<noteq> ''all'' \<Longrightarrow>
   x \<in> set q \<and> ev_status x = VStr (ek_status kw)"
  by (simp add: apply_event_filters_def Let_def)

text \<open>What \<open>setattr\<close> in a loop over a dict leaves in \<open>status\<close>.\<close>

lemma fold_setattr_other:
  "''status'' \<notin> fst ` set xs \<Longrightarrow>
   ev_status (fold (\<lambda>(k, v). setattr k v) xs e) = ev_status e"
  by (induction xs arbitrary: e) (auto simp: setattr_def)

lemma fold_setattr_status:
  "distinct (map fst xs) \<Longrightarrow> map_of xs ''status'' = Some v \<Longrightarrow>
   ev_status (fold (\<lambda>(k, v). setattr k v) xs e) = v"
proof (induction xs arbitrary: e)
  case Nil
  then show ?case by simp
next
  case (Cons p xs)
  obtain k w where p: "p = (k, w)" by (cases p)
  show ?case
  proof (cases "k = ''status''")
    case True
    with Cons.prems p have "w = v" and "''status'' \<notin> fst ` set xs" by auto
    then show ?thesis using p True by (simp add: fold_setattr_other) (simp add: setattr_def)
  next
    case False
    with Cons p show ?thesis by simp
  qed
qed

lemma associate_succeeds:
  "list_all (\<lambda>p. tag_type (snd p) = ''impact'') ps \<Longrightarrow> \<exists>e'. associate ps e = Inr e'"
  by (induction ps e rule: associate.induct) (auto simp: Let_def)

lemma list_all_zip_snd:
  "list_all P (take (length xs) ys) \<Longrightarrow> list_all (\<lambda>p. P (snd p)) (zip xs ys)"
  by (induction xs ys rule: list_induct2') auto

lemma load_ex_db: "load_event ex_db 1 10 = Some (an_event 10 ''pending'' [] [])"
  by (simp add: load_event_def is_event_def ex_defs)

lemmas ex2_defs =
  ex_approved_db_def reverted_event_def ex_reverted_db_def approved_event_def

lemmas assoc_defs =
  event_add_tag_def event_add_thing_def event_delete_tag_def event_delete_thing_def

lemma load_approved: "load_event ex_approved_db 1 10 = Some approved_event"
  by (simp add: load_event_def is_event_def ex_defs ex2_defs)

lemma load_reverted: "load_event ex_reverted_db 1 10 = Some reverted_event"
  by (simp add: load_event_def is_event_def ex_defs ex2_defs)

lemmas content_defs =
  apply_content_item_filters_def column_filters_def event_filters_def tag_filters_def
  include_events_def exclude_events_def category_event_ids_def level_event_ids_def
  events_tags_def has_event_in_def filter_if_def filter_date_def filter_str_def
  opt_in_def opt_not_in_def sous_chef_recipes_def

lemmas ex3_defs = an_item_def ex_content_db_def no_filters_def

lemma remove_all_empty:
  "remove_all ids {} = (case ids of [] \<Rightarrow> Inr {} | e # es \<Rightarrow> Inl (KeyError e))"
  by (cases ids) simp_all

lemma column_filters_ok:
  "select_vector (ck_search_vector kw) = Inr v \<Longrightarrow>
   \<exists>q1. column_filters search regex q kw = Inr q1"
  by (simp add: column_filters_def Let_def split: option.splits)

section \<open>Approval needs both id lists\<close>

text \<open>
  C5. An update that asks for the status \<open>approved\<close> on an event that is not
  approved, without both a non-empty list of tag ids and a non-empty list of thing
  ids, raises a \<open>RequestError\<close>, and the stored database, hence the event's
  status, is unchanged.
\<close>

theorem incomplete_approval_rejected:
  assumes "load_event d org event_id = Some e"
    and "ev_status e \<noteq> VStr ''approved''"
    and "map_of (req_data rq) ''status'' = Some (VStr ''approved'')"
    and "req_tag_ids rq = [] \<or> req_thing_ids rq = []"
  shows "(\<exists>msg. event_update accepts columns now d org event_id rq = Inl (RequestError msg)) \<and>
         stored d (event_update accepts columns now d org event_id rq) = d"
  using assms by (auto simp: event_update_def check_approval_def stored_def Let_def)

theorem incomplete_approval_rejected_witness:
  "load_event ex_db 1 10 = Some (an_event 10 ''pending'' [] []) \<and>
   (\<exists>msg. event_update ex_accepts ex_columns 200 ex_db 1 10
       \<lparr>req_data = [(''status'', VStr ''approved'')], req_tag_ids = [],
        req_thing_ids = [5]\<rparr> = Inl (RequestError msg)) \<and>
   stored ex_db (event_update ex_accepts ex_columns 200 ex_db 1 10
       \<lparr>req_data = [(''status'', VStr ''approved'')], req_tag_ids = [],
        req_thing_ids = [5]\<rparr>) = ex_db"
proof -
  have l: "load_event ex_db 1 10 = Some (an_event 10 ''pending'' [] [])"
    by (simp add: load_event_def is_event_def ex_defs)
  have s: "ev_status (an_event 10 ''pending'' [] []) \<noteq> VStr ''approved''"
    by (simp add: an_event_def)
  show ?thesis
    using incomplete_approval_rejected [OF l s,
        where rq = "\<lparr>req_data = [(''status'', VStr ''approved'')], req_tag_ids = [],
            req_thing_ids = [5]\<rparr>" and accepts = ex_accepts and columns = ex_columns
          and now = 200] l
    by simp
qed

section \<open>The organization of an event is fixed\<close>

text \<open>
  C9. Whenever an update succeeds, the event it returns belongs to the
  authenticated organization, whatever \<open>organization_id\<close> the body supplied; the
  event is the stored row, and the organization ids of the stored events are the same
  as before the request.
\<close>

theorem update_keeps_organization:
  assumes "event_update accepts columns now d org event_id rq = Inr (e', d')"
  shows "ev_organization_id e' = VInt org \<and> e' \<in> set (db_events d') \<and>
         map ev_organization_id (db_events d') = map ev_organization_id (db_events d)"
proof -
  from assms obtain e where l: "load_event d org event_id = Some e"
    by (auto simp: event_update_def split: option.splits)
  from assms l have org: "ev_organization_id e' = VInt org"
    and d': "d' = commit_event org event_id e' d"
    by (auto simp: event_update_def commit_update_def Let_def
        split: sum.splits if_splits dest!: associate_org)
  have "e' \<in> set (db_events d')"
    using l unfolding d' commit_event_def load_event_def by (simp add: replace_first_mem)
  moreover have "map ev_organization_id (db_events d') = map ev_organization_id (db_events d)"
  proof -
    have "map ev_organization_id (replace_first (is_event org event_id) e' (db_events d))
            = map ev_organization_id (db_events d)"
      by (rule map_replace_first) (simp add: is_event_def org)
    then show ?thesis by (simp add: d' commit_event_def)
  qed
  ultimately show ?thesis using org by simp
qed

lemma ex_other_organization:
  "event_update ex_accepts ex_columns 200 ex_db 1 10
     \<lparr>req_data = [(''organization_id'', VInt 7)], req_tag_ids = [1], req_thing_ids = [5]\<rparr>
   = Inr (approved_event, ex_db\<lparr>db_events := [approved_event]\<rparr>)"
  by (simp add: update_defs ex_defs approved_event_def Let_def)

theorem update_keeps_organization_witness:
  "event_update ex_accepts ex_columns 200 ex_db 1 10
     \<lparr>req_data = [(''organization_id'', VInt 7)], req_tag_ids = [1], req_thing_ids = [5]\<rparr>
   = Inr (approved_event, ex_db\<lparr>db_events := [approved_event]\<rparr>) \<and>
   ev_organization_id approved_event = VInt 1 \<and>
   approved_event \<in> set (db_events (ex_db\<lparr>db_events := [approved_event]\<rparr>)) \<and>
   map ev_organization_id (db_events (ex_db\<lparr>db_events := [approved_event]\<rparr>)) =
   map ev_organization_id (db_events ex_db)"
  using update_keeps_organization [OF ex_other_organization] ex_other_organization
  by blast

section \<open>Approval by supplying both id lists\<close>

text \<open>
  C10, as stated, fails: a request that supplies the existing tag 3 and the existing
  thing 5 is rejected, because tag 3 is not an impact tag, and the stored event is
  still pending.
\<close>

theorem approval_forced_counterexample:
  "filter (\<lambda>t. tag_id t \<in> set [3]) (db_tags ex_db) \<noteq> [] \<and>
   filter (\<lambda>t. thing_id t \<in> set [5]) (db_things ex_db) \<noteq> [] \<and>
   event_update ex_accepts ex_columns 200 ex_db 1 10
     \<lparr>req_data = [], req_tag_ids = [3], req_thing_ids = [5]\<rparr>
   = Inl (RequestError ''Events can only be assigned Impact Tags.'') \<and>
   load_event
     (stored ex_db (event_update ex_accepts ex_columns 200 ex_db 1 10
        \<lparr>req_data = [], req_tag_ids = [3], req_thing_ids = [5]\<rparr>)) 1 10
   = Some (an_event 10 ''pending'' [] [])"
  by (simp add: update_defs stored_def ex_defs Let_def)

text \<open>
  C10, amended. Let the request (a dict, so with distinct keys) supply at least one
  existing tag id and at least one existing thing id, and let every fetched tag be an
  impact tag. Then the approval path is taken: the event that the update sends to
  the commit has the status \<open>approved\<close>, whatever status the body asked for, and
  the request returns that event, stored, whenever the database accepts the commit
  (and raises, storing nothing, when it does not).
\<close>

theorem approval_forced:
  assumes l: "load_event d org event_id = Some e"
    and dist: "distinct (map fst (req_data rq))"
    and tags: "filter (\<lambda>t. tag_id t \<in> set (req_tag_ids rq)) (db_tags d) \<noteq> []"
    and things: "filter (\<lambda>t. thing_id t \<in> set (req_thing_ids rq)) (db_things d) \<noteq> []"
    and impact: "list_all (\<lambda>t. tag_type t = ''impact'')
           (filter (\<lambda>t. tag_id t \<in> set (req_tag_ids rq)) (db_tags d))"
  shows "\<exists>e'. ev_status e' = VStr ''approved'' \<and>
           e' \<in> set (db_events (commit_event org event_id e' d)) \<and>
           event_update accepts columns now d org event_id rq =
             (if accepts d e e' then Inr (e', commit_event org event_id e' d)
              else Inl DatabaseError)"
proof -
  let ?tags = "filter (\<lambda>t. tag_id t \<in> set (req_tag_ids rq)) (db_tags d)"
  let ?things = "filter (\<lambda>t. thing_id t \<in> set (req_thing_ids rq)) (db_things d)"
  let ?data = "AList.update ''updated'' (VTime now)
      (AList.update ''status'' (VStr ''approved'')
         (filter (\<lambda>(k, v). k \<in> set columns) (req_data rq)))"
  let ?e2 = "(fold (\<lambda>(k, v). setattr k v) ?data e)\<lparr>ev_organization_id := VInt org\<rparr>"
  from tags things have ne: "req_tag_ids rq \<noteq> []" "req_thing_ids rq \<noteq> []" by auto
  have chk: "check_approval d rq e = Inr (True, ?things, ?tags)"
    using tags things ne by (simp add: check_approval_def Let_def)
  have "distinct (map fst ?data)"
    using dist by (simp add: distinct_update distinct_map_filter)
  moreover have "map_of ?data ''status'' = Some (VStr ''approved'')"
    by (simp add: update_conv')
  ultimately have st: "ev_status ?e2 = VStr ''approved''"
    by (simp add: fold_setattr_status)
  from impact have "list_all (\<lambda>t. tag_type t = ''impact'') (take (length ?things) ?tags)"
    by (auto simp: list_all_iff dest: in_set_takeD)
  then obtain e3 where a: "associate (zip ?things ?tags) ?e2 = Inr e3"
    using associate_succeeds [OF list_all_zip_snd] by blast
  have res: "event_update accepts columns now d org event_id rq
               = (if accepts d e e3 then Inr (e3, commit_event org event_id e3 d)
                  else Inl DatabaseError)"
    using l chk a by (simp add: event_update_def commit_update_def Let_def)
  have "ev_status e3 = VStr ''approved''"
    using associate_status [OF a] st by simp
  moreover have "e3 \<in> set (db_events (commit_event org event_id e3 d))"
    using l by (simp add: commit_event_def load_event_def replace_first_mem)
  ultimately show ?thesis using res by blast
qed

text \<open>The body asks for \<open>pending\<close>, and the event is approved all the same.\<close>

lemma ex_pending_body:
  "event_update ex_accepts ex_columns 200 ex_db 1 10
     \<lparr>req_data = [(''status'', VStr ''pending'')], req_tag_ids = [1], req_thing_ids = [5]\<rparr>
   = Inr (approved_event, ex_approved_db)"
  by (simp add: update_defs ex_defs ex2_defs Let_def)

theorem approval_forced_witness:
  "(\<exists>e'. ev_status e' = VStr ''approved'' \<and>
      e' \<in> set (db_events (commit_event 1 10 e' ex_db)) \<and>
      event_update ex_accepts ex_columns 200 ex_db 1 10
        \<lparr>req_data = [(''status'', VStr ''pending'')], req_tag_ids = [1],
         req_thing_ids = [5]\<rparr> =
        (if ex_accepts ex_db (an_event 10 ''pending'' [] []) e'
         then Inr (e', commit_event 1 10 e' ex_db) else Inl DatabaseError)) \<and>
   event_update ex_accepts ex_columns 200 ex_db 1 10
     \<lparr>req_data = [(''status'', VStr ''pending'')], req_tag_ids = [1], req_thing_ids = [5]\<rparr>
   = Inr (approved_event, ex_approved_db) \<and>
   ev_status approved_event = VStr ''approved''"
proof (intro conjI)
  show "\<exists>e'. ev_status e' = VStr ''approved'' \<and>
      e' \<in> set (db_events (commit_event 1 10 e' ex_db)) \<and>
      event_update ex_accepts ex_columns 200 ex_db 1 10
        \<lparr>req_data = [(''status'', VStr ''pending'')], req_tag_ids = [1],
         req_thing_ids = [5]\<rparr> =
        (if ex_accepts ex_db (an_event 10 ''pending'' [] []) e'
         then Inr (e', commit_event 1 10 e' ex_db) else Inl DatabaseError)"
    by (rule approval_forced [OF load_ex_db]) (simp_all add: ex_defs)
  show "event_update ex_accepts ex_columns 200 ex_db 1 10
     \<lparr>req_data = [(''status'', VStr ''pending'')], req_tag_ids = [1], req_thing_ids = [5]\<rparr>
   = Inr (approved_event, ex_approved_db)"
    by (rule ex_pending_body)
  show "ev_status approved_event = VStr ''approved''"
    by (simp add: ex2_defs an_event_def)
qed

text \<open>
  A body that moves the event onto the id of another row: the example database
  refuses the commit, and nothing is stored.
\<close>

lemma ex_refused_commit:
  "event_update ex_accepts ex_columns 200
     (ex_db\<lparr>db_events := [an_event 10 ''pending'' [] [], an_event 11 ''pending'' [] []]\<rparr>)
     1 10 \<lparr>req_data = [(''id'', VInt 11)], req_tag_ids = [1], req_thing_ids = [5]\<rparr>
   = Inl DatabaseError"
  by (simp add: update_defs ex_defs Let_def)

section \<open>The association loop stops at the shorter list\<close>

text \<open>
  C3 at a failing input: tags 1 (impact) and 3 (subject) with the one thing 5.
  \<open>zip\<close> pairs thing 5 with tag 1 only, so tag 3 is never checked: the request
  succeeds and the event is stored as approved.
\<close>

theorem unchecked_tag:
  "\<exists>e d'. event_update ex_accepts ex_columns 200 ex_db 1 10
       \<lparr>req_data = [], req_tag_ids = [1, 3], req_thing_ids = [5]\<rparr> = Inr (e, d') \<and>
     ev_status e = VStr ''approved'' \<and> ev_tag_ids e = [1] \<and> load_event d' 1 10 = Some e"
  by (simp add: update_defs ex_defs Let_def)

text \<open>
  C4 at a failing input: the impact tags 1 and 2 with the one thing 5. The approval
  succeeds, and tag 2 is not associated with the event.
\<close>

theorem partial_association:
  "\<exists>e d'. event_update ex_accepts ex_columns 200 ex_db 1 10
       \<lparr>req_data = [], req_tag_ids = [1, 2], req_thing_ids = [5]\<rparr> = Inr (e, d') \<and>
     ev_status e = VStr ''approved'' \<and> ev_thing_ids e = [5] \<and>
     ev_tag_ids e = [1] \<and> 2 \<notin> set (ev_tag_ids e) \<and> load_event d' 1 10 = Some e"
  by (simp add: update_defs ex_defs Let_def)

section \<open>Deleting an event\<close>

text \<open>
  C6. Deleting an existing event of the organization succeeds. The table keeps its
  rows and the deleted event is one of them; its collections are empty and no row of
  \<open>events_tags\<close> or \<open>things_events\<close> carries its id; its status is
  \<open>deleted\<close> and its \<open>updated\<close> is the time of the request. A search with the
  default status \<open>pending\<close> does not return it, and when ids are unique in the
  table it returns no row with that id.
\<close>

theorem delete_is_soft:
  assumes l: "load_event d org event_id = Some e"
  shows "\<exists>e' d'. event_delete now d org event_id = Inr (e', d') \<and>
      length (db_events d') = length (db_events d) \<and> e' \<in> set (db_events d') \<and>
      ev_id e' = VInt event_id \<and> ev_organization_id e' = VInt org \<and>
      ev_tags e' = [] \<and> ev_things e' = [] \<and>
      VInt event_id \<notin> fst ` set (events_tags d') \<and>
      VInt event_id \<notin> fst ` set (things_events d') \<and>
      ev_status e' = VStr ''deleted'' \<and> ev_updated e' = VTime now \<and>
      (\<forall>search kw. ek_status kw = ''pending'' \<longrightarrow>
         e' \<notin> set (apply_event_filters search d' (db_events d') kw)) \<and>
      (distinct (map ev_id (db_events d)) \<longrightarrow>
        (\<forall>search kw. ek_status kw = ''pending'' \<longrightarrow>
           VInt event_id \<notin> ev_id ` set (apply_event_filters search d' (db_events d') kw)))"
proof -
  let ?xs = "map (delete_associations event_id) (db_events d)"
  let ?d1 = "d\<lparr>db_events := ?xs\<rparr>"
  let ?e1 = "(delete_associations event_id e)
               \<lparr>ev_status := VStr ''deleted'', ev_updated := VTime now\<rparr>"
  let ?d' = "commit_event org event_id ?e1 ?d1"
  from l have ise: "is_event org event_id e"
    by (simp add: load_event_def find_Some_holds)
  have res: "event_delete now d org event_id = Inr (?e1, ?d')"
    using l by (simp add: event_delete_def Let_def)
  have ev': "db_events ?d' = replace_first (is_event org event_id) ?e1 ?xs"
    by (simp add: commit_event_def)
  have f1: "find (is_event org event_id) ?xs = Some (delete_associations event_id e)"
    using l by (simp add: find_map_delete load_event_def)
  have len: "length (db_events ?d') = length (db_events d)"
    by (simp add: ev' length_replace_first)
  have in': "?e1 \<in> set (db_events ?d')"
    unfolding ev' using f1 by (rule replace_first_mem)
  have fields: "ev_id ?e1 = VInt event_id" "ev_organization_id ?e1 = VInt org"
    "ev_tags ?e1 = []" "ev_things ?e1 = []" "ev_status ?e1 = VStr ''deleted''"
    "ev_updated ?e1 = VTime now"
    using ise by (simp_all add: is_event_def delete_associations_def)
  have cleared: "ev_tags x = [] \<and> ev_things x = []"
    if "x \<in> set (db_events ?d')" "ev_id x = VInt event_id" for x
  proof -
    from that(1) have "x = ?e1 \<or> x \<in> set ?xs"
      unfolding ev' using replace_first_subset by fastforce
    then show ?thesis
      using that(2) fields by (auto simp: delete_associations_def)
  qed
  have no_tags: "VInt event_id \<notin> fst ` set (events_tags ?d')"
    using cleared by (fastforce simp: events_tags_def)
  have no_things: "VInt event_id \<notin> fst ` set (things_events ?d')"
    using cleared by (fastforce simp: things_events_def)
  have search1: "?e1 \<notin> set (apply_event_filters search ?d' (db_events ?d') kw)"
    if "ek_status kw = ''pending''" for search kw
    using event_filters_status [of ?e1 search ?d' "db_events ?d'" kw] that fields by auto
  have search2:
    "VInt event_id \<notin> ev_id ` set (apply_event_filters search ?d' (db_events ?d') kw)"
    if dist: "distinct (map ev_id (db_events d))" and st: "ek_status kw = ''pending''"
    for search kw
  proof
    assume "VInt event_id \<in> ev_id ` set (apply_event_filters search ?d' (db_events ?d') kw)"
    then obtain x where x: "x \<in> set (apply_event_filters search ?d' (db_events ?d') kw)"
      and idx: "ev_id x = VInt event_id" by auto
    from event_filters_status [OF x] st have xin: "x \<in> set (db_events ?d')"
      and xst: "ev_status x = VStr ''pending''" by auto
    have "distinct (map ev_id ?xs)" using dist by (simp add: comp_def)
    from replace_first_unique [OF this f1 xin [unfolded ev']] idx fields(1)
    have "x = ?e1" by simp
    with xst fields show False by simp
  qed
  show ?thesis
    using res len in' fields no_tags no_things search1 search2 by blast
qed

theorem delete_is_soft_witness:
  "\<exists>e' d'. event_delete 300 ex_approved_db 1 10 = Inr (e', d') \<and>
     e' \<in> set (db_events d') \<and> ev_tags e' = [] \<and> ev_things e' = [] \<and>
     ev_status e' = VStr ''deleted'' \<and>
     e' \<notin> set (apply_event_filters (\<lambda>s e. True) d' (db_events d') default_search)"
proof -
  have "ek_status default_search = ''pending''" by (simp add: default_search_def)
  with delete_is_soft [OF load_approved, of 300] show ?thesis by blast
qed

section \<open>The association endpoints and the status\<close>

text \<open>
  C7, as stated, fails for the two removal endpoints. Event 10 is approved with tag 1
  and thing 5 and then set back to \<open>pending\<close> by an update; on this pending event
  both removals succeed and take the association away.
\<close>

theorem removal_counterexample:
  "stored ex_db (event_update ex_accepts ex_columns 200 ex_db 1 10
      \<lparr>req_data = [], req_tag_ids = [1], req_thing_ids = [5]\<rparr>) = ex_approved_db \<and>
   stored ex_approved_db (event_update ex_accepts ex_columns 250 ex_approved_db 1 10
      \<lparr>req_data = [(''status'', VStr ''pending'')], req_tag_ids = [], req_thing_ids = []\<rparr>)
     = ex_reverted_db \<and>
   load_event ex_reverted_db 1 10 = Some reverted_event \<and>
   ev_status reverted_event = VStr ''pending'' \<and>
   ev_tag_ids reverted_event = [1] \<and> ev_thing_ids reverted_event = [5] \<and>
   (\<exists>e d'. event_delete_tag 300 ex_reverted_db 1 10 1 = Inr (e, d') \<and>
      ev_tag_ids e = [] \<and> load_event d' 1 10 = Some e) \<and>
   (\<exists>e d'. event_delete_thing 300 ex_reverted_db 1 10 5 = Inr (e, d') \<and>
      ev_thing_ids e = [] \<and> load_event d' 1 10 = Some e)"
  by (simp add: update_defs assoc_defs stored_def ex_defs ex2_defs Let_def
      remove_matching.simps)

text \<open>
  C7, amended. For an event whose status is not \<open>approved\<close>, adding a tag and
  adding a thing raise a \<open>RequestError\<close> and store nothing. Removing a tag or a
  thing does not look at the status: it raises a \<open>RequestError\<close> and stores nothing
  when the tag (thing) is not associated with the event, and succeeds when it is.
\<close>

theorem removal_ignores_status:
  assumes l: "load_event d org event_id = Some e"
    and ns: "ev_status e \<noteq> VStr ''approved''"
  shows "event_add_tag now d org event_id tid = Inl (RequestError
           ''You must first approve an Event before adding additional Tags.'') \<and>
         event_add_thing now d org event_id thid = Inl (RequestError
           ''You must first approve an Event before adding additional Things.'') \<and>
         stored d (event_add_tag now d org event_id tid) = d \<and>
         stored d (event_add_thing now d org event_id thid) = d \<and>
         (if tid \<in> set (ev_tag_ids e)
          then \<exists>e' d'. event_delete_tag now d org event_id tid = Inr (e', d')
          else event_delete_tag now d org event_id tid
                 = Inl (not_associated event_id ''Tag'' tid) \<and>
               stored d (event_delete_tag now d org event_id tid) = d) \<and>
         (if thid \<in> set (ev_thing_ids e)
          then \<exists>e' d'. event_delete_thing now d org event_id thid = Inr (e', d')
          else event_delete_thing now d org event_id thid
                 = Inl (not_associated event_id ''Thing'' thid) \<and>
               stored d (event_delete_thing now d org event_id thid) = d)"
  using l ns by (simp add: assoc_defs stored_def Let_def)

theorem removal_ignores_status_witness:
  "event_add_tag 300 ex_reverted_db 1 10 2 = Inl (RequestError
     ''You must first approve an Event before adding additional Tags.'') \<and>
   event_add_thing 300 ex_reverted_db 1 10 6 = Inl (RequestError
     ''You must first approve an Event before adding additional Things.'') \<and>
   event_delete_tag 300 ex_reverted_db 1 10 2 = Inl (not_associated 10 ''Tag'' 2) \<and>
   (\<exists>e' d'. event_delete_thing 300 ex_reverted_db 1 10 5 = Inr (e', d'))"
proof -
  have ns: "ev_status reverted_event \<noteq> VStr ''approved''"
    by (simp add: ex2_defs)
  have "2 \<notin> set (ev_tag_ids reverted_event)" "5 \<in> set (ev_thing_ids reverted_event)"
    by (simp_all add: ex2_defs ex_defs ev_tag_ids_def ev_thing_ids_def)
  with removal_ignores_status [OF load_reverted ns, of 300 2 6]
    removal_ignores_status [OF load_reverted ns, of 300 2 5]
  show ?thesis by simp
qed

section \<open>Excluding categories and levels of content items\<close>

text \<open>
  C1 at failing inputs. A search that only excludes the category \<open>citation\<close>
  does not complete: removing event 20 from the empty accumulator raises
  \<open>KeyError\<close>. A search that only excludes a category that no event carries does
  complete, but returns no item at all, where the same search without the filter
  returns both items.
\<close>

theorem exclude_only_fails:
  "apply_content_item_filters (\<lambda>s v c. True) (\<lambda>r u. True) ex_content_db
     (db_content ex_content_db) (no_filters\<lparr>ck_exclude_categories := [''citation'']\<rparr>)
   = Inl (KeyError (VInt 20)) \<and>
   apply_content_item_filters (\<lambda>s v c. True) (\<lambda>r u. True) ex_content_db
     (db_content ex_content_db) (no_filters\<lparr>ck_exclude_categories := [''other'']\<rparr>)
   = Inr ([], {}) \<and>
   apply_content_item_filters (\<lambda>s v c. True) (\<lambda>r u. True) ex_content_db
     (db_content ex_content_db) no_filters
   = Inr ([an_item 100 [VInt 20], an_item 101 []], {})"
  by (simp add: content_defs ex3_defs ex_defs Let_def)

text \<open>
  C2 at a failing input: a search that includes the category \<open>promotion\<close> and
  excludes the category \<open>citation\<close> returns item 100, whose event 20 carries a
  \<open>citation\<close> tag.
\<close>

theorem excluded_category_returned:
  "apply_content_item_filters (\<lambda>s v c. True) (\<lambda>r u. True) ex_content_db
     (db_content ex_content_db)
     (no_filters\<lparr>ck_include_categories := [''promotion''],
                 ck_exclude_categories := [''citation'']\<rparr>)
   = Inr ([an_item 100 [VInt 20]], {}) \<and>
   has_event_in (category_event_ids ex_content_db 1 [''citation'']) (an_item 100 [VInt 20])"
  by (simp add: content_defs ex3_defs ex_defs Let_def)

section \<open>Fetching a content item that does not exist\<close>

text \<open>
  C8 at a failing input: no item 5 exists. With no global \<open>event_id\<close> the view
  raises \<open>NameError\<close>; were such a global bound, say to 7, the message would name 7,
  not the requested id 5.
\<close>

theorem missing_item_name_error:
  "content_items Map.empty ex_content_db 1 5 = Inl (NameError ''event_id'') \<and>
   content_items [''event_id'' \<mapsto> VInt 7] ex_content_db 1 5
     = Inl (NotFoundError ''An ContentItem with ID 7 does not exist.'')"
  by (simp add: content_items_def ex3_defs fmt_int_def fmt_nat.simps)

section \<open>What the list filters and the impact check do guarantee\<close>

text \<open>
  The loop rejects a request as soon as one of the tags it reaches is not an impact
  tag; only the tags beyond the shorter list escape the check.
\<close>

lemma associate_rejects:
  "\<not> list_all (\<lambda>p. tag_type (snd p) = ''impact'') ps \<Longrightarrow>
   associate ps e = Inl (RequestError ''Events can only be assigned Impact Tags.'')"
  by (induction ps e rule: associate.induct) (auto simp: Let_def)

text \<open>
  The event search applies the recipe, tag and thing lists as stated: every row
  returned has an included id and none has an excluded id. It never reads the
  \<open>categories\<close> and \<open>levels\<close> arguments.
\<close>

lemma event_filters_lists:
  assumes "x \<in> set (apply_event_filters search d q kw)"
  shows "(ek_include_recipes kw \<noteq> [] \<longrightarrow> col_in (ev_recipe_id x) (ek_include_recipes kw)) \<and>
         (ek_exclude_recipes kw \<noteq> [] \<longrightarrow>
            col_not_in (ev_recipe_id x) (ek_exclude_recipes kw)) \<and>
         (ek_include_tags kw \<noteq> [] \<longrightarrow>
            (\<exists>t \<in> set (ev_tags x). tag_id t \<in> set (ek_include_tags kw))) \<and>
         (ek_exclude_tags kw \<noteq> [] \<longrightarrow>
            (\<forall>t \<in> set (ev_tags x). tag_id t \<notin> set (ek_exclude_tags kw))) \<and>
         (ek_include_things kw \<noteq> [] \<longrightarrow>
            (\<exists>t \<in> set (ev_things x). thing_id t \<in> set (ek_include_things kw))) \<and>
         (ek_exclude_things kw \<noteq> [] \<longrightarrow>
            (\<forall>t \<in> set (ev_things x). thing_id t \<notin> set (ek_exclude_things kw)))"
  using assms by (simp add: apply_event_filters_def Let_def list_ex_iff)

lemma event_filters_ignore_categories:
  "apply_event_filters search d q (kw\<lparr>ek_categories := cs, ek_levels := ls\<rparr>)
   = apply_event_filters search d q kw"
  by (simp add: apply_event_filters_def)

text \<open>The content search applies the recipe and tag lists as stated.\<close>

lemma content_filters_lists:
  assumes "apply_content_item_filters search regex d q kw = Inr (rows, ids)"
    and "x \<in> set rows"
  shows "(ck_include_recipes kw \<noteq> [] \<longrightarrow> opt_in (ci_recipe_id x) (ck_include_recipes kw)) \<and>
         (ck_exclude_recipes kw \<noteq> [] \<longrightarrow>
            opt_not_in (ci_recipe_id x) (ck_exclude_recipes kw)) \<and>
         (ck_include_tags kw \<noteq> [] \<longrightarrow>
            (\<exists>t \<in> set (ci_tags x). tag_id t \<in> set (ck_include_tags kw))) \<and>
         (ck_exclude_tags kw \<noteq> [] \<longrightarrow>
            (\<forall>t \<in> set (ci_tags x). tag_id t \<notin> set (ck_exclude_tags kw)))"
proof -
  from assms(1) obtain q1 q2 where
    c: "column_filters search regex (filter (\<lambda>c. ci_org_id c = ck_org_id kw) q) kw = Inr q1"
    and e: "event_filters d kw (q1, {}) = Inr (q2, ids)" and r: "rows = tag_filters d kw q2"
    by (auto simp: apply_content_item_filters_def Let_def split: sum.splits)
  have sub: "set q2 \<subseteq> set q1"
    using e by (auto simp: event_filters_def include_events_def exclude_events_def Let_def
        split: if_splits sum.splits)
  from assms(2) r have x2: "x \<in> set q2" and
    t: "(ck_include_tags kw \<noteq> [] \<longrightarrow>
           (\<exists>t \<in> set (ci_tags x). tag_id t \<in> set (ck_include_tags kw))) \<and>
        (ck_exclude_tags kw \<noteq> [] \<longrightarrow>
           (\<forall>t \<in> set (ci_tags x). tag_id t \<notin> set (ck_exclude_tags kw)))"
    by (simp_all add: tag_filters_def Let_def list_ex_iff)
  from x2 sub have "x \<in> set q1" by blast
  with c have
    "(ck_include_recipes kw \<noteq> [] \<longrightarrow> opt_in (ci_recipe_id x) (ck_include_recipes kw)) \<and>
     (ck_exclude_recipes kw \<noteq> [] \<longrightarrow> opt_not_in (ci_recipe_id x) (ck_exclude_recipes kw))"
    by (auto simp: column_filters_def Let_def split: sum.splits option.splits if_splits)
  with t show ?thesis by simp
qed

text \<open>
  When a search includes no categories and no levels (and names a search vector that
  exists), the exclude blocks work on the empty accumulator: the composition raises
  \<open>KeyError\<close> for the first id it tries to remove, and completes only when there is
  none, returning the empty accumulator and, if an exclude filter was given, no row.
\<close>

lemma exclusion_without_inclusion:
  assumes ic: "ck_include_categories kw = []"
    and il: "ck_include_levels kw = []"
    and sv: "select_vector (ck_search_vector kw) = Inr v"
  shows "if removed_event_ids d kw = []
         then \<exists>rows. apply_content_item_filters search regex d q kw = Inr (rows, {}) \<and>
                (ck_exclude_categories kw = [] \<and> ck_exclude_levels kw = [] \<or> rows = [])
         else apply_content_item_filters search regex d q kw
                = Inl (KeyError (hd (removed_event_ids d kw)))"
proof -
  obtain q1 where q1: "column_filters search regex
      (filter (\<lambda>c. ci_org_id c = ck_org_id kw) q) kw = Inr q1"
    using column_filters_ok [OF sv] by blast
  have none: "filter (has_event_in []) xs = []" for xs
    by (simp add: has_event_in_def list_ex_iff)
  have wiped: "tag_filters d kw [] = []"
    by (simp add: tag_filters_def filter_if_def Let_def)
  show ?thesis
    using ic il q1
    by (auto simp: apply_content_item_filters_def event_filters_def exclude_events_def
        removed_event_ids_def remove_all_empty none wiped Let_def split: list.splits)
qed

end
